theory Spec2Isabelle
  imports Main
begin

section \<open>The cancellation-masking adaptor of include/unifex/unstoppable.hpp\<close>

text \<open>
  The header defines four things: the inner receiver \<^verbatim>\<open>unstoppable_source_receiver\<close>,
  the operation state \<^verbatim>\<open>unstoppable_operation\<close>, the sender \<^verbatim>\<open>unstoppable_sender\<close>
  and the customization-point object \<^verbatim>\<open>unstoppable\<close>. Data members keep their names
  without the trailing underscore (\<open>op\<close> for \<^verbatim>\<open>op_\<close>, \<open>receiver\<close> for
  \<^verbatim>\<open>receiver_\<close>, and so on), which Isabelle does not accept in a constant's name.

  Objects that are reached through a pointer live in an explicit store; every way a call
  can end other than by returning is a value of type \<open>fault\<close>.
\<close>

subsection \<open>Completion signals, faults and the consumer's receiver\<close>

type_synonym addr = nat

text \<open>The three completion signals of a receiver whose success carries no values.\<close>

datatype 'e completion = Set_value | Set_done | Set_error 'e

text \<open>
  \<open>Exception x\<close>: the call exits by throwing \<open>x\<close>. \<open>Terminate\<close>: an exception met a
  \<^verbatim>\<open>noexcept\<close> boundary (\<^verbatim>\<open>std::terminate\<close>). \<open>Assertion_failure\<close>: an
  \<^verbatim>\<open>assert\<close> of the header failed. \<open>Ill_formed\<close>: the member or overload does not take
  part in overload resolution (its \<^verbatim>\<open>enable_if\<close> or return type fails), so the call is
  rejected when the program is built. \<open>Invalid_object\<close>: a pointer or a manual-lifetime slot
  is used where no live object is.
\<close>

datatype 'x fault = Exception 'x | Terminate | Assertion_failure | Ill_formed | Invalid_object

text \<open>
  The template parameter \<^verbatim>\<open>Receiver\<close>, as far as the header inspects it at build time:
  \<open>done_invocable\<close> is \<^verbatim>\<open>std::is_invocable_v<decltype(unifex::set_done), Receiver>\<close> and
  \<open>error_invocable e\<close> is \<^verbatim>\<open>std::is_invocable_v<decltype(unifex::set_error), Receiver, Error>\<close>
  for the type of the error \<open>e\<close>.
\<close>

record 'e receiver_type =
  done_invocable :: bool
  error_invocable :: "'e \<Rightarrow> bool"

text \<open>
  A receiver object of the consumer. What its channels do is the consumer's business; the
  model keeps what the adaptor can tell: whether the success or the error channel exits by
  an exception, and the signals the receiver has been given so far, oldest first.
\<close>

record ('e, 'x) outer_receiver =
  value_throws :: "'x option"
  error_throws :: "'e \<Rightarrow> 'x option"
  observed :: "'e completion list"

text \<open>
  Modelled from the spec: the customization points \<^verbatim>\<open>unifex::set_value\<close> and
  \<^verbatim>\<open>unifex::set_error\<close> of receiver_concepts.hpp, which is not among the sources. Each
  hands one signal to the receiver it is applied to ("each accepted call is one-shot");
  the receiver records the signal and then returns or throws.
\<close>

definition unifex_set_value ::
  "('e, 'x) outer_receiver \<Rightarrow> 'x option \<times> ('e, 'x) outer_receiver" where
  "unifex_set_value r = (value_throws r, r\<lparr>observed := observed r @ [Set_value]\<rparr>)"

definition unifex_set_error ::
  "('e, 'x) outer_receiver \<Rightarrow> 'e \<Rightarrow> 'x option \<times> ('e, 'x) outer_receiver" where
  "unifex_set_error r e = (error_throws r e, r\<lparr>observed := observed r @ [Set_error e]\<rparr>)"

text \<open>A function declared \<^verbatim>\<open>noexcept\<close>: an exception leaving its body ends the program.\<close>

definition noexcept :: "'x fault option \<Rightarrow> 'x fault option" where
  "noexcept f = (case f of Some (Exception x) \<Rightarrow> Some Terminate | _ \<Rightarrow> f)"

subsection \<open>The inner receiver and the operation state\<close>

text \<open>\<^verbatim>\<open>unstoppable_source_receiver\<close>: one data member, the pointer \<^verbatim>\<open>op_\<close>; \<open>None\<close> is null.\<close>

record unstoppable_source_receiver =
  op :: "addr option"

text \<open>
  The wrapped source is a template parameter. The model keeps what the adaptor and its
  consumer can see of it: whether \<^verbatim>\<open>connect\<close> throws, the signals its operation gives
  its receiver inside \<^verbatim>\<open>start\<close>, and the signals it gives later, from a context of its own.
\<close>

record ('e, 'x) source_sender =
  connect_throws :: "'x option"
  on_start :: "'e completion list"
  later :: "'e completion list"

text \<open>
  \<^verbatim>\<open>source_op_t\<close>, the operation state of the source connected to the inner receiver: it
  holds the receiver it was given and what is left of the source's signals.
\<close>

record 'e source_op_t =
  held :: unstoppable_source_receiver
  start_script :: "'e completion list"
  later_script :: "'e completion list"

text \<open>
  \<^verbatim>\<open>unstoppable_operation\<close>. \<open>sourceOp\<close> is the \<^verbatim>\<open>manual_lifetime\<close> slot: \<open>None\<close> while
  the storage holds no live nested operation.
\<close>

record ('e, 'x) unstoppable_operation =
  source :: "('e, 'x) source_sender"
  receiver :: "('e, 'x) outer_receiver"
  isSourceOpConstructed :: bool
  sourceOp :: "'e source_op_t option"

type_synonym ('e, 'x) store = "addr \<Rightarrow> ('e, 'x) unstoppable_operation option"

text \<open>The explicit constructor (line 46) and the move constructor (lines 49-51), which
  returns the new object and the moved-from one: \<^verbatim>\<open>std::exchange(other.op_, {})\<close>.\<close>

definition unstoppable_source_receiver_ctor :: "addr \<Rightarrow> unstoppable_source_receiver" where
  "unstoppable_source_receiver_ctor p = \<lparr>op = Some p\<rparr>"

definition unstoppable_source_receiver_move ::
  "unstoppable_source_receiver \<Rightarrow> unstoppable_source_receiver \<times> unstoppable_source_receiver" where
  "unstoppable_source_receiver_move other = (\<lparr>op = op other\<rparr>, other\<lparr>op := None\<rparr>)"

text \<open>\<^verbatim>\<open>set_value\<close> (lines 53-56): not \<^verbatim>\<open>noexcept\<close>, no build-time gate.\<close>

definition set_value ::
  "unstoppable_source_receiver \<Rightarrow> ('e, 'x) store \<Rightarrow> 'x fault option \<times> ('e, 'x) store" where
  "set_value r h =
     (case op r of
        None \<Rightarrow> (Some Assertion_failure, h)
      | Some p \<Rightarrow>
          (case h p of
             None \<Rightarrow> (Some Invalid_object, h)
           | Some this \<Rightarrow>
               (case unifex_set_value (receiver this) of
                  (x, rcv) \<Rightarrow> (map_option Exception x, h(p \<mapsto> this\<lparr>receiver := rcv\<rparr>)))))"

text \<open>\<^verbatim>\<open>set_done\<close> (lines 58-64): present when \<^verbatim>\<open>set_done\<close> is invocable on the
  receiver type, \<^verbatim>\<open>noexcept\<close>, and its body is that of \<^verbatim>\<open>set_value\<close>.\<close>

definition set_done ::
  "'e receiver_type \<Rightarrow> unstoppable_source_receiver \<Rightarrow> ('e, 'x) store \<Rightarrow>
     'x fault option \<times> ('e, 'x) store" where
  "set_done R r h =
     (if \<not> done_invocable R then (Some Ill_formed, h)
      else
        (case op r of
           None \<Rightarrow> (Some Assertion_failure, h)
         | Some p \<Rightarrow>
             (case h p of
                None \<Rightarrow> (Some Invalid_object, h)
              | Some this \<Rightarrow>
                  (case unifex_set_value (receiver this) of
                     (x, rcv) \<Rightarrow>
                       (noexcept (map_option Exception x), h(p \<mapsto> this\<lparr>receiver := rcv\<rparr>))))))"

text \<open>\<^verbatim>\<open>set_error\<close> (lines 66-72): present when \<^verbatim>\<open>set_error\<close> is invocable on the
  receiver type with the error's type, \<^verbatim>\<open>noexcept\<close>.\<close>

definition set_error ::
  "'e receiver_type \<Rightarrow> unstoppable_source_receiver \<Rightarrow> 'e \<Rightarrow> ('e, 'x) store \<Rightarrow>
     'x fault option \<times> ('e, 'x) store" where
  "set_error R r e h =
     (if \<not> error_invocable R e then (Some Ill_formed, h)
      else
        (case op r of
           None \<Rightarrow> (Some Assertion_failure, h)
         | Some p \<Rightarrow>
             (case h p of
                None \<Rightarrow> (Some Invalid_object, h)
              | Some this \<Rightarrow>
                  (case unifex_set_error (receiver this) e of
                     (x, rcv) \<Rightarrow>
                       (noexcept (map_option Exception x), h(p \<mapsto> this\<lparr>receiver := rcv\<rparr>))))))"

text \<open>\<^verbatim>\<open>get_receiver\<close> (lines 92-95): the receiver held by the operation state, read only.\<close>

definition get_receiver ::
  "unstoppable_source_receiver \<Rightarrow> ('e, 'x) store \<Rightarrow> 'x fault + ('e, 'x) outer_receiver" where
  "get_receiver r h =
     (case op r of
        None \<Rightarrow> Inl Assertion_failure
      | Some p \<Rightarrow> (case h p of None \<Rightarrow> Inl Invalid_object | Some this \<Rightarrow> Inr (receiver this)))"

text \<open>What the consumer's receiver held by the operation state at \<open>p\<close> has been given.\<close>

definition signals_at :: "addr \<Rightarrow> ('e, 'x) store \<Rightarrow> 'e completion list" where
  "signals_at p h = (case h p of None \<Rightarrow> [] | Some this \<Rightarrow> observed (receiver this))"

subsection \<open>Relocating the inner receiver\<close>

text \<open>
  The inner receiver has a move constructor only, so new instances arise from the
  explicit constructor or by relocation. \<open>relocate i rs\<close> move-constructs a new instance
  from the \<open>i\<close>-th of the instances \<open>rs\<close> that exist; \<open>live_for p rs\<close> are the instances
  whose back-reference is the operation state at \<open>p\<close>.
\<close>

definition relocate ::
  "nat \<Rightarrow> unstoppable_source_receiver list \<Rightarrow> unstoppable_source_receiver list" where
  "relocate i rs =
     (if i < length rs
      then (case unstoppable_source_receiver_move (rs ! i) of (new, old) \<Rightarrow> rs[i := old] @ [new])
      else rs)"

definition live_for ::
  "addr \<Rightarrow> unstoppable_source_receiver list \<Rightarrow> unstoppable_source_receiver list" where
  "live_for p rs = filter (\<lambda>r. op r = Some p) rs"

subsection \<open>Construction, destruction and start of the operation state\<close>

text \<open>
  Modelled from the spec: \<^verbatim>\<open>unifex::connect\<close> and \<^verbatim>\<open>unifex::start\<close> of
  sender_concepts.hpp, which is not among the sources, applied to the wrapped source.
  \<^verbatim>\<open>connect\<close> "yields an operation state without side effects beyond construction" or
  throws; the operation state takes the receiver by move construction. \<^verbatim>\<open>start\<close> "may
  complete before or after returning": the operation gives its receiver the signals the
  source completes with inside \<^verbatim>\<open>start\<close>, in order, and stops at the first call that
  does not return.
\<close>

definition unifex_connect ::
  "('e, 'x) source_sender \<Rightarrow> unstoppable_source_receiver \<Rightarrow> 'x + 'e source_op_t" where
  "unifex_connect s r =
     (case connect_throws s of
        Some x \<Rightarrow> Inl x
      | None \<Rightarrow>
          Inr \<lparr>held = fst (unstoppable_source_receiver_move r),
               start_script = on_start s, later_script = later s\<rparr>)"

fun deliver ::
  "'e receiver_type \<Rightarrow> unstoppable_source_receiver \<Rightarrow> 'e completion \<Rightarrow> ('e, 'x) store \<Rightarrow>
     'x fault option \<times> ('e, 'x) store" where
  "deliver R r Set_value h = set_value r h"
| "deliver R r Set_done h = set_done R r h"
| "deliver R r (Set_error e) h = set_error R r e h"

fun deliver_all ::
  "'e receiver_type \<Rightarrow> unstoppable_source_receiver \<Rightarrow> 'e completion list \<Rightarrow> ('e, 'x) store \<Rightarrow>
     'x fault option \<times> ('e, 'x) store" where
  "deliver_all R r [] h = (None, h)"
| "deliver_all R r (s # ss) h =
     (case deliver R r s h of
        (Some f, h') \<Rightarrow> (Some f, h')
      | (None, h') \<Rightarrow> deliver_all R r ss h')"

definition unifex_start ::
  "'e receiver_type \<Rightarrow> 'e source_op_t \<Rightarrow> ('e, 'x) store \<Rightarrow> 'x fault option \<times> ('e, 'x) store" where
  "unifex_start R n h = deliver_all R (held n) (start_script n) h"

text \<open>
  The constructor (lines 105-116) of the object at address \<open>this\<close>. The member
  initialisers and the default member initialiser \<^verbatim>\<open>isSourceOpConstructed_ = true\<close> run
  first; the body then constructs the nested operation from the result of
  \<^verbatim>\<open>connect(source_, source_receiver{this})\<close>. When \<^verbatim>\<open>connect\<close> throws, the constructor
  exits by that exception: the object never comes to exist in the store, and \<open>Unwound\<close>
  carries the exception and the members as they stand when they are destroyed.
\<close>

datatype ('x, 'o, 'h) construction = Constructed 'h | Unwound 'x 'o

definition member_init ::
  "('e, 'x) source_sender \<Rightarrow> ('e, 'x) outer_receiver \<Rightarrow> ('e, 'x) unstoppable_operation" where
  "member_init s r =
     \<lparr>source = s, receiver = r, isSourceOpConstructed = True, sourceOp = None\<rparr>"

definition unstoppable_operation_ctor ::
  "addr \<Rightarrow> ('e, 'x) source_sender \<Rightarrow> ('e, 'x) outer_receiver \<Rightarrow> ('e, 'x) store \<Rightarrow>
     ('x, ('e, 'x) unstoppable_operation, ('e, 'x) store) construction" where
  "unstoppable_operation_ctor this s r h =
     (case unifex_connect s (unstoppable_source_receiver_ctor this) of
        Inl x \<Rightarrow> Unwound x (member_init s r)
      | Inr n \<Rightarrow> Constructed (h(this \<mapsto> (member_init s r)\<lparr>sourceOp := Some n\<rparr>)))"

text \<open>
  The destructor body (lines 118-123), on the members of a fully constructed object:
  \<^verbatim>\<open>sourceOp_.destruct()\<close> needs a live nested operation in the slot.
\<close>

definition unstoppable_operation_dtor ::
  "('e, 'x) unstoppable_operation \<Rightarrow> 'x fault + ('e, 'x) unstoppable_operation" where
  "unstoppable_operation_dtor this =
     (if isSourceOpConstructed this
      then (case sourceOp this of
              None \<Rightarrow> Inl Invalid_object
            | Some n \<Rightarrow> Inr (this\<lparr>sourceOp := None, isSourceOpConstructed := False\<rparr>))
      else Inr this)"

text \<open>\<^verbatim>\<open>start\<close> (lines 125-127), \<^verbatim>\<open>noexcept\<close>: starts the nested operation in the slot.\<close>

definition start ::
  "'e receiver_type \<Rightarrow> addr \<Rightarrow> ('e, 'x) store \<Rightarrow> 'x fault option \<times> ('e, 'x) store" where
  "start R p h =
     (case h p of
        None \<Rightarrow> (Some Invalid_object, h)
      | Some this \<Rightarrow>
          (case sourceOp this of
             None \<Rightarrow> (Some Invalid_object, h)
           | Some n \<Rightarrow> (case unifex_start R n h of (f, h') \<Rightarrow> (noexcept f, h'))))"

text \<open>
  The source's completion after \<^verbatim>\<open>start\<close> has returned, from a context of its own: the
  nested operation gives its receiver the remaining signals. No \<^verbatim>\<open>noexcept\<close> frame of
  this header is on the stack then.
\<close>

definition complete_later ::
  "'e receiver_type \<Rightarrow> addr \<Rightarrow> ('e, 'x) store \<Rightarrow> 'x fault option \<times> ('e, 'x) store" where
  "complete_later R p h =
     (case h p of
        None \<Rightarrow> (Some Invalid_object, h)
      | Some this \<Rightarrow>
          (case sourceOp this of
             None \<Rightarrow> (Some Invalid_object, h)
           | Some n \<Rightarrow> deliver_all R (held n) (later_script n) h))"

subsection \<open>The sender and the customization-point object\<close>

text \<open>\<^verbatim>\<open>unstoppable_sender\<close> (lines 142-179): its one data member is the wrapped source.\<close>

datatype 's unstoppable_sender = unstoppable_sender (sender_source: 's)

text \<open>Both \<^verbatim>\<open>connect\<close> members (lines 159-175) construct the operation state from the
  source and the receiver, at the address the caller provides for the result.\<close>

definition connect ::
  "('e, 'x) source_sender unstoppable_sender \<Rightarrow> addr \<Rightarrow> ('e, 'x) outer_receiver \<Rightarrow>
     ('e, 'x) store \<Rightarrow> ('x, ('e, 'x) unstoppable_operation, ('e, 'x) store) construction" where
  "connect sender this r h = unstoppable_operation_ctor this (sender_source sender) r h"

text \<open>
  One run of the adapted operation: connect, start, and the source's later completion.
\<close>

definition run ::
  "'e receiver_type \<Rightarrow> ('e, 'x) source_sender unstoppable_sender \<Rightarrow> addr \<Rightarrow>
     ('e, 'x) outer_receiver \<Rightarrow> ('e, 'x) store \<Rightarrow> 'x fault option \<times> ('e, 'x) store" where
  "run R sender this r h =
     (case connect sender this r h of
        Unwound x half \<Rightarrow> (Some (Exception x), h)
      | Constructed h1 \<Rightarrow>
          (case start R this h1 of
             (Some f, h2) \<Rightarrow> (Some f, h2)
           | (None, h2) \<Rightarrow> complete_later R this h2))"

text \<open>A signal the source may give the inner receiver: the member it calls exists.\<close>

fun accepted :: "'e receiver_type \<Rightarrow> 'e completion \<Rightarrow> bool" where
  "accepted R Set_value = True"
| "accepted R Set_done = done_invocable R"
| "accepted R (Set_error e) = error_invocable R e"

text \<open>
  The two call operators of \<^verbatim>\<open>unstoppable_cpo\<close> (lines 181-202). \<open>customization\<close> is the
  source type's own \<^verbatim>\<open>tag_invoke\<close> overload for the object, if it has one
  (\<^verbatim>\<open>is_tag_invocable_v<unstoppable_cpo, Source>\<close>), and \<open>constructible\<close> is
  \<^verbatim>\<open>std::is_constructible_v<std::remove_cvref_t<Source>, Source>\<close>.
\<close>

datatype ('s, 'r) unstoppable_result =
  Customized 'r | Wrapped "'s unstoppable_sender" | No_viable_overload

definition unstoppable ::
  "('s \<Rightarrow> 'r) option \<Rightarrow> bool \<Rightarrow> 's \<Rightarrow> ('s, 'r) unstoppable_result" where
  "unstoppable customization constructible s =
     (case customization of
        Some tag_invoke \<Rightarrow> Customized (tag_invoke s)
      | None \<Rightarrow> if constructible then Wrapped (unstoppable_sender s) else No_viable_overload)"

text \<open>
  The completion shapes a sender type declares: \<^verbatim>\<open>value_types\<close> takes the templates
  \<^verbatim>\<open>Variant\<close> and \<^verbatim>\<open>Tuple\<close>, \<^verbatim>\<open>error_types\<close> takes \<^verbatim>\<open>Variant\<close>; \<open>'t\<close> stands for
  the types of the program. Lines 146-151 give those of \<^verbatim>\<open>unstoppable_sender<Source>\<close>.
\<close>

record 't sender_type =
  value_types :: "('t list \<Rightarrow> 't) \<Rightarrow> ('t list \<Rightarrow> 't) \<Rightarrow> 't"
  error_types :: "('t list \<Rightarrow> 't) \<Rightarrow> 't"

definition unstoppable_sender_type :: "'t sender_type \<Rightarrow> 't sender_type" where
  "unstoppable_sender_type Source =
     \<lparr>value_types = (\<lambda>Variant Tuple. Variant [Tuple []]),
      error_types = (\<lambda>Variant. error_types Source Variant)\<rparr>"

subsection \<open>Queries on the inner receiver\<close>

text \<open>
  A customization-point object applied to a const inner receiver reaches one of the two
  friend \<^verbatim>\<open>tag_invoke\<close> overloads. The objects and their arguments are the caller's:
  \<open>invocable cpo args\<close> is \<^verbatim>\<open>std::is_invocable_v<CPO, const Receiver&, Args...>\<close>,
  \<open>call cpo rcv args v\<close> is the call \<^verbatim>\<open>cpo(rcv, args...)\<close> on the consumer's receiver,
  and \<open>invoke_func func rcv v\<close> is \<^verbatim>\<open>std::invoke(func, rcv)\<close>. A call returns a result
  and may change the state \<open>v\<close> its arguments refer to (what a visiting function has
  collected, for one). \<open>visit_continuations\<close> is the object of async_trace.hpp, named in
  line 84; \<open>Query c\<close> is any other object.
\<close>

datatype 'c cpo = visit_continuations | Query 'c

text \<open>The generic overload (lines 75-80); the \<open>Some\<close> marks a returned result.\<close>

definition tag_invoke_cpo ::
  "('c cpo \<Rightarrow> 'a list \<Rightarrow> bool) \<Rightarrow>
   ('c cpo \<Rightarrow> ('e, 'x) outer_receiver \<Rightarrow> 'a list \<Rightarrow> 'v \<Rightarrow> 'b \<times> 'v) \<Rightarrow>
   'c cpo \<Rightarrow> unstoppable_source_receiver \<Rightarrow> 'a list \<Rightarrow> ('e, 'x) store \<Rightarrow> 'v \<Rightarrow>
     'x fault + ('b option \<times> 'v)" where
  "tag_invoke_cpo invocable call cpo r args h v =
     (if \<not> invocable cpo args then Inl Ill_formed
      else
        (case get_receiver r h of
           Inl f \<Rightarrow> Inl f
         | Inr rcv \<Rightarrow> (case call cpo rcv args v of (b, v') \<Rightarrow> Inr (Some b, v'))))"

text \<open>The overload for \<^verbatim>\<open>visit_continuations\<close> (lines 82-90), which returns \<^verbatim>\<open>void\<close>.\<close>

definition tag_invoke_visit_continuations ::
  "('a \<Rightarrow> ('e, 'x) outer_receiver \<Rightarrow> 'v \<Rightarrow> 'v) \<Rightarrow>
   unstoppable_source_receiver \<Rightarrow> 'a \<Rightarrow> ('e, 'x) store \<Rightarrow> 'v \<Rightarrow>
     'x fault + ('b option \<times> 'v)" where
  "tag_invoke_visit_continuations invoke_func r func h v =
     (case get_receiver r h of
        Inl f \<Rightarrow> Inl f
      | Inr rcv \<Rightarrow> Inr (None, invoke_func func rcv v))"

text \<open>
  Overload resolution between the two: the second overload is the more specialised and
  is chosen for \<^verbatim>\<open>visit_continuations\<close> with a single argument.
\<close>

fun tag_invoke ::
  "('c cpo \<Rightarrow> 'a list \<Rightarrow> bool) \<Rightarrow>
   ('c cpo \<Rightarrow> ('e, 'x) outer_receiver \<Rightarrow> 'a list \<Rightarrow> 'v \<Rightarrow> 'b \<times> 'v) \<Rightarrow>
   ('a \<Rightarrow> ('e, 'x) outer_receiver \<Rightarrow> 'v \<Rightarrow> 'v) \<Rightarrow>
   'c cpo \<Rightarrow> unstoppable_source_receiver \<Rightarrow> 'a list \<Rightarrow> ('e, 'x) store \<Rightarrow> 'v \<Rightarrow>
     'x fault + ('b option \<times> 'v)" where
  "tag_invoke invocable call invoke_func visit_continuations r [func] h v =
     tag_invoke_visit_continuations invoke_func r func h v"
| "tag_invoke invocable call invoke_func cpo r args h v =
     tag_invoke_cpo invocable call cpo r args h v"

text \<open>
  The claim about queries in the spec's words, to compare \<open>tag_invoke\<close> with: the call is
  made on the consumer's receiver with the same arguments and its result is returned as
  it is.
\<close>

definition forwarded_unchanged ::
  "('c cpo \<Rightarrow> ('e, 'x) outer_receiver \<Rightarrow> 'a list \<Rightarrow> 'v \<Rightarrow> 'b \<times> 'v) \<Rightarrow>
   'c cpo \<Rightarrow> ('e, 'x) outer_receiver \<Rightarrow> 'a list \<Rightarrow> 'v \<Rightarrow> 'x fault + ('b option \<times> 'v)" where
  "forwarded_unchanged call cpo rcv args v =
     (case call cpo rcv args v of (b, v') \<Rightarrow> Inr (Some b, v'))"

section \<open>Properties\<close>

subsection \<open>Auxiliary facts\<close>

lemma noexcept_simps:
  "noexcept None = None"
  "noexcept (Some (Exception x)) = Some Terminate"
  "noexcept f \<noteq> Some (Exception y)"
  by (auto simp: noexcept_def split: option.splits fault.splits)

lemma live_for_update:
  "i < length rs \<Longrightarrow>
   length (live_for p (rs[i := x])) + (if op (rs ! i) = Some p then 1 else 0) =
   length (live_for p rs) + (if op x = Some p then 1 else 0)"
proof (induction rs arbitrary: i)
  case Nil
  then show ?case by simp
next
  case (Cons a rs)
  show ?case
  proof (cases i)
    case 0
    then show ?thesis by (simp add: live_for_def)
  next
    case (Suc j)
    with Cons.prems have "j < length rs" by simp
    from Cons.IH [OF this] Suc show ?thesis by (simp add: live_for_def)
  qed
qed

lemma live_for_relocate: "length (live_for p (relocate i rs)) = length (live_for p rs)"
proof (cases "i < length rs")
  case True
  from live_for_update [OF True, of p "(rs ! i)\<lparr>op := None\<rparr>"]
  show ?thesis using True
    by (auto simp: relocate_def unstoppable_source_receiver_move_def live_for_def split: if_splits)
next
  case False
  then show ?thesis by (simp add: relocate_def)
qed

lemma live_for_fold_relocate:
  "length (live_for p (fold relocate is rs)) = length (live_for p rs)"
  by (induction "is" arbitrary: rs) (simp_all add: live_for_relocate)

lemma deliver_moved_from:
  "op r = None \<Longrightarrow> snd (deliver R r c h) = h \<and> fst (deliver R r c h) \<noteq> None"
  by (cases c) (simp_all add: set_value_def set_done_def set_error_def)

lemma deliver_accepted:
  assumes "accepted R c" and "op r = Some p" and "h p = Some this"
  shows "\<exists>f. deliver R r c h =
           (f, h(p \<mapsto> this\<lparr>receiver := (receiver this)
              \<lparr>observed := observed (receiver this) @ [if c = Set_done then Set_value else c]\<rparr>\<rparr>))"
  using assms
  by (cases c) (simp_all add: set_value_def set_done_def set_error_def
      unifex_set_value_def unifex_set_error_def)

lemma script_cases:
  "xs @ ys = [c] \<Longrightarrow> (xs = [c] \<and> ys = []) \<or> (xs = [] \<and> ys = [c])"
  by (cases xs) simp_all

subsection \<open>The claims\<close>

text \<open>
  C1, as stated, has the conversion never fail. \<^verbatim>\<open>set_done\<close> is \<^verbatim>\<open>noexcept\<close> and its
  body calls \<^verbatim>\<open>unifex::set_value\<close> on the consumer's receiver, which may throw: the
  receiver below is given its success signal, throws, and the call ends the program
  instead of returning.
\<close>

theorem set_done_never_fails_counterexample:
  "set_done \<lparr>done_invocable = True, error_invocable = (\<lambda>e::int. False)\<rparr> \<lparr>op = Some 0\<rparr>
     [0 \<mapsto> \<lparr>source = \<lparr>connect_throws = None, on_start = [Set_done], later = []\<rparr>,
             receiver = \<lparr>value_throws = Some ''thrown by set_value'',
               error_throws = (\<lambda>e. None), observed = []\<rparr>,
             isSourceOpConstructed = True,
             sourceOp = Some \<lparr>held = \<lparr>op = Some 0\<rparr>, start_script = [Set_done],
               later_script = []\<rparr>\<rparr>]
   = (Some Terminate,
      [0 \<mapsto> \<lparr>source = \<lparr>connect_throws = None, on_start = [Set_done], later = []\<rparr>,
              receiver = \<lparr>value_throws = Some ''thrown by set_value'',
                error_throws = (\<lambda>e. None), observed = [Set_value]\<rparr>,
              isSourceOpConstructed = True,
              sourceOp = Some \<lparr>held = \<lparr>op = Some 0\<rparr>, start_script = [Set_done],
                later_script = []\<rparr>\<rparr>])"
  by (simp add: set_done_def unifex_set_value_def noexcept_def)

text \<open>
  C1, amended. When the source completes with cancellation, that is, calls
  \<^verbatim>\<open>set_done\<close> on the inner receiver that holds the back-reference to the operation
  state, the consumer's receiver is given exactly one more signal, success with no
  values. No exception leaves \<^verbatim>\<open>set_done\<close> and nothing is sent on the error channel. The
  call returns normally when the consumer's success channel does not throw, and ends the
  program when it does.
\<close>

theorem set_done_relays_success:
  assumes "done_invocable R" and "op r = Some p" and "h p = Some this"
  shows "signals_at p (snd (set_done R r h)) = observed (receiver this) @ [Set_value] \<and>
         (\<forall>x. fst (set_done R r h) \<noteq> Some (Exception x)) \<and>
         fst (set_done R r h) =
           (case value_throws (receiver this) of None \<Rightarrow> None | Some x \<Rightarrow> Some Terminate)"
  using assms
  by (simp add: set_done_def unifex_set_value_def signals_at_def noexcept_simps
      split: option.splits)

theorem set_done_relays_success_witness:
  "signals_at 0
     (snd (set_done \<lparr>done_invocable = True, error_invocable = (\<lambda>e::int. False)\<rparr> \<lparr>op = Some 0\<rparr>
        [0 \<mapsto> \<lparr>source = \<lparr>connect_throws = None, on_start = [Set_done], later = []\<rparr>,
                receiver = \<lparr>value_throws = (None :: string option),
                  error_throws = (\<lambda>e. None), observed = []\<rparr>,
                isSourceOpConstructed = True,
                sourceOp = Some \<lparr>held = \<lparr>op = Some 0\<rparr>, start_script = [Set_done],
                  later_script = []\<rparr>\<rparr>])) = [Set_value]"
proof -
  let ?R = "\<lparr>done_invocable = True, error_invocable = (\<lambda>e::int. False)\<rparr>"
  let ?o = "\<lparr>source = \<lparr>connect_throws = None, on_start = [Set_done], later = []\<rparr>,
                receiver = \<lparr>value_throws = (None :: string option),
                  error_throws = (\<lambda>e::int. None), observed = []\<rparr>,
                isSourceOpConstructed = True,
                sourceOp = Some \<lparr>held = \<lparr>op = Some 0\<rparr>, start_script = [Set_done],
                  later_script = []\<rparr>\<rparr>"
  have h1: "done_invocable ?R" by simp
  have h2: "op \<lparr>op = Some 0\<rparr> = Some 0" by simp
  have h3: "[0 \<mapsto> ?o] 0 = Some ?o" by simp
  from set_done_relays_success [of ?R "\<lparr>op = Some 0\<rparr>" 0 "[0 \<mapsto> ?o]" ?o, OF h1 h2 h3]
  show ?thesis by simp
qed

text \<open>
  C2. A run of the adapted operation over a source that connects and completes once,
  inside \<^verbatim>\<open>start\<close> or later, with a signal whose relay member exists: the consumer's
  receiver is given exactly one signal more than it had, and it is a success or an error,
  never a cancellation.
\<close>

theorem run_delivers_exactly_one_signal:
  assumes "connect_throws s = None" and "on_start s @ later s = [c]" and "accepted R c"
  shows "signals_at this (snd (run R (unstoppable_sender s) this r h)) =
           observed r @ [if c = Set_done then Set_value else c] \<and>
         (if c = Set_done then Set_value else c) \<noteq> Set_done"
proof -
  let ?n = "\<lparr>held = \<lparr>op = Some this\<rparr>, start_script = on_start s, later_script = later s\<rparr>"
  let ?o = "(member_init s r)\<lparr>sourceOp := Some ?n\<rparr>"
  let ?h1 = "h(this \<mapsto> ?o)"
  have built: "connect (unstoppable_sender s) this r h = Constructed ?h1"
    using assms(1)
    by (simp add: connect_def unstoppable_operation_ctor_def unifex_connect_def
        unstoppable_source_receiver_ctor_def unstoppable_source_receiver_move_def)
  define rcv where "rcv = r\<lparr>observed := observed r @ [if c = Set_done then Set_value else c]\<rparr>"
  have obs: "observed rcv = observed r @ [if c = Set_done then Set_value else c]"
    by (simp add: rcv_def)
  obtain f where d: "deliver R \<lparr>op = Some this\<rparr> c ?h1 = (f, ?h1(this \<mapsto> ?o\<lparr>receiver := rcv\<rparr>))"
    using deliver_accepted [OF assms(3), of "\<lparr>op = Some this\<rparr>" this ?h1 ?o]
    by (auto simp: member_init_def rcv_def)
  from script_cases [OF assms(2)]
  have "signals_at this (snd (run R (unstoppable_sender s) this r h)) = observed rcv"
  proof
    assume "on_start s = [c] \<and> later s = []"
    then show ?thesis
      using built d
      by (cases "noexcept f")
         (simp_all add: run_def start_def unifex_start_def complete_later_def signals_at_def
            member_init_def split: option.splits)
  next
    assume "on_start s = [] \<and> later s = [c]"
    then show ?thesis
      using built d
      by (cases f)
         (simp_all add: run_def start_def unifex_start_def complete_later_def signals_at_def
            member_init_def noexcept_simps)
  qed
  with obs show ?thesis by simp
qed

theorem run_delivers_exactly_one_signal_witness:
  "signals_at 0
     (snd (run \<lparr>done_invocable = False, error_invocable = (\<lambda>e::int. True)\<rparr>
        (unstoppable_sender
           \<lparr>connect_throws = (None :: string option), on_start = [], later = [Set_error 42]\<rparr>)
        0 \<lparr>value_throws = None, error_throws = (\<lambda>e. None), observed = []\<rparr> (\<lambda>p. None)))
   = [Set_error 42]"
proof -
  let ?R = "\<lparr>done_invocable = False, error_invocable = (\<lambda>e::int. True)\<rparr>"
  let ?s = "\<lparr>connect_throws = (None :: string option), on_start = [],
             later = [Set_error (42::int)]\<rparr>"
  have h1: "connect_throws ?s = None" by simp
  have h2: "on_start ?s @ later ?s = [Set_error 42]" by simp
  have h3: "accepted ?R (Set_error 42)" by simp
  from run_delivers_exactly_one_signal [OF h1 h2 h3, of 0
      "\<lparr>value_throws = None, error_throws = (\<lambda>e. None), observed = []\<rparr>" "\<lambda>p. None"]
  show ?thesis by simp
qed

text \<open>
  C3. An error \<open>e\<close> given to the inner receiver is relayed as exactly one error signal
  carrying \<open>e\<close>; nothing is sent on the success channel, and no exception leaves
  \<^verbatim>\<open>set_error\<close>.
\<close>

theorem set_error_relays_error:
  assumes "error_invocable R e" and "op r = Some p" and "h p = Some this"
  shows "signals_at p (snd (set_error R r e h)) = observed (receiver this) @ [Set_error e] \<and>
         (\<forall>x. fst (set_error R r e h) \<noteq> Some (Exception x)) \<and>
         (error_throws (receiver this) e = None \<longrightarrow> fst (set_error R r e h) = None)"
  using assms
  by (simp add: set_error_def unifex_set_error_def signals_at_def noexcept_simps)

theorem set_error_relays_error_witness:
  "signals_at 3
     (snd (set_error \<lparr>done_invocable = False, error_invocable = (\<lambda>e::int. True)\<rparr>
        \<lparr>op = Some 3\<rparr> 42
        [3 \<mapsto> \<lparr>source = \<lparr>connect_throws = None, on_start = [], later = [Set_error 42]\<rparr>,
                receiver = \<lparr>value_throws = (None :: string option),
                  error_throws = (\<lambda>e. None), observed = []\<rparr>,
                isSourceOpConstructed = True,
                sourceOp = Some \<lparr>held = \<lparr>op = Some 3\<rparr>, start_script = [],
                  later_script = [Set_error 42]\<rparr>\<rparr>])) = [Set_error 42]"
proof -
  let ?R = "\<lparr>done_invocable = False, error_invocable = (\<lambda>e::int. True)\<rparr>"
  let ?o = "\<lparr>source = \<lparr>connect_throws = None, on_start = [], later = [Set_error (42::int)]\<rparr>,
             receiver = \<lparr>value_throws = (None :: string option),
               error_throws = (\<lambda>e::int. None), observed = []\<rparr>,
             isSourceOpConstructed = True,
             sourceOp = Some \<lparr>held = \<lparr>op = Some 3\<rparr>, start_script = [],
               later_script = [Set_error 42]\<rparr>\<rparr>"
  have h1: "error_invocable ?R 42" by simp
  have h2: "op \<lparr>op = Some 3\<rparr> = Some 3" by simp
  have h3: "[3 \<mapsto> ?o] 3 = Some ?o" by simp
  from set_error_relays_error [of ?R 42 "\<lparr>op = Some 3\<rparr>" 3 "[3 \<mapsto> ?o]" ?o, OF h1 h2 h3]
  show ?thesis by simp
qed

text \<open>
  C4, as stated, asks for the liveness flag to say "no nested object to destroy" when
  \<^verbatim>\<open>connect\<close> throws in the constructor. The flag is initialised \<^verbatim>\<open>true\<close> and the
  constructor does not touch it: the members being unwound carry the flag \<open>True\<close> over
  an empty slot. By the destructor's own test that flag says there is a nested object to
  destroy: its body, were it run on such members, would destroy the empty slot.
\<close>

theorem construction_failure_flag_counterexample:
  "unstoppable_operation_ctor 0
     \<lparr>connect_throws = Some ''connect failed'', on_start = [Set_done :: int completion], later = []\<rparr>
     \<lparr>value_throws = None, error_throws = (\<lambda>e. None), observed = []\<rparr>
     (\<lambda>p. None) =
   Unwound ''connect failed''
     \<lparr>source = \<lparr>connect_throws = Some ''connect failed'', on_start = [Set_done], later = []\<rparr>,
      receiver = \<lparr>value_throws = None, error_throws = (\<lambda>e. None), observed = []\<rparr>,
      isSourceOpConstructed = True, sourceOp = None\<rparr> \<and>
   unstoppable_operation_dtor
     \<lparr>source = \<lparr>connect_throws = Some ''connect failed'', on_start = [Set_done :: int completion],
        later = []\<rparr>,
      receiver = \<lparr>value_throws = None, error_throws = (\<lambda>e. None), observed = []\<rparr>,
      isSourceOpConstructed = True, sourceOp = None\<rparr> = Inl Invalid_object"
  by (simp add: unstoppable_operation_ctor_def unifex_connect_def member_init_def
      unstoppable_operation_dtor_def)

text \<open>
  C4, amended. If connecting the wrapped source throws during construction, the
  constructor exits by that exception with the slot empty and the flag at its initial
  value \<open>True\<close>; the destructor body does not run on the half-built object, so no nested
  operation exists to leak or to destroy twice. The exception reaches the caller of
  \<^verbatim>\<open>connect\<close>, no operation state is added to the store and \<^verbatim>\<open>start\<close> is not called.
\<close>

theorem construction_failure:
  assumes "connect_throws s = Some x"
  shows "unstoppable_operation_ctor this s r h = Unwound x (member_init s r) \<and>
         isSourceOpConstructed (member_init s r) \<and>
         sourceOp (member_init s r) = None \<and>
         connect (unstoppable_sender s) this r h = Unwound x (member_init s r) \<and>
         run R (unstoppable_sender s) this r h = (Some (Exception x), h)"
  using assms
  by (simp add: run_def connect_def unstoppable_operation_ctor_def unifex_connect_def
      member_init_def)

theorem construction_failure_witness:
  "run \<lparr>done_invocable = True, error_invocable = (\<lambda>e::int. True)\<rparr>
     (unstoppable_sender
        \<lparr>connect_throws = Some ''connect failed'', on_start = [Set_done], later = []\<rparr>)
     0 \<lparr>value_throws = None, error_throws = (\<lambda>e. None), observed = []\<rparr> (\<lambda>p. None)
   = (Some (Exception ''connect failed''), (\<lambda>p. None))"
proof -
  let ?s = "\<lparr>connect_throws = Some ''connect failed'', on_start = [Set_done :: int completion],
             later = []\<rparr>"
  have h: "connect_throws ?s = Some ''connect failed''" by simp
  from construction_failure [OF h, of 0
      "\<lparr>value_throws = None, error_throws = (\<lambda>e. None), observed = []\<rparr>" "\<lambda>p. None"
      "\<lparr>done_invocable = True, error_invocable = (\<lambda>e::int. True)\<rparr>"]
  show ?thesis by simp
qed

text \<open>
  C5. The customization-point object returns the result of the source's own
  customization when there is one, so a source that returns itself comes back unchanged
  and unwrapped; otherwise, when the source type is constructible from the argument, it
  returns an \<^verbatim>\<open>unstoppable_sender\<close> holding the source, and when it is not, no overload
  is viable.
\<close>

theorem unstoppable_dispatch:
  "unstoppable (Some f) c s = Customized (f s) \<and>
   unstoppable (Some (\<lambda>x. x)) c s = Customized s \<and>
   unstoppable None True s = Wrapped (unstoppable_sender s) \<and>
   sender_source (unstoppable_sender s) = s \<and>
   unstoppable None False s = No_viable_overload"
  by (simp add: unstoppable_def)

text \<open>
  C6. The inner receiver's \<^verbatim>\<open>set_done\<close> is missing exactly when \<^verbatim>\<open>set_done\<close> is not
  invocable on the consumer's receiver type; where it exists and is called, it gives the
  consumer's receiver a success signal and not a cancellation.
\<close>

theorem set_done_gate_and_action:
  "(fst (set_done R r h) = Some Ill_formed) = (\<not> done_invocable R) \<and>
   (done_invocable R \<and> op r = Some p \<and> h p = Some this \<longrightarrow>
      signals_at p (snd (set_done R r h)) = observed (receiver this) @ [Set_value] \<and>
      signals_at p (snd (set_done R r h)) \<noteq> observed (receiver this) @ [Set_done])"
  by (auto simp: set_done_def unifex_set_value_def signals_at_def noexcept_def
      split: option.splits fault.splits)

theorem set_done_gate_and_action_witness:
  "fst (set_done \<lparr>done_invocable = True, error_invocable = (\<lambda>e::int. False)\<rparr> \<lparr>op = Some 1\<rparr>
        [1 \<mapsto> \<lparr>source = \<lparr>connect_throws = None, on_start = [Set_done], later = []\<rparr>,
                receiver = \<lparr>value_throws = (None :: string option),
                  error_throws = (\<lambda>e. None), observed = []\<rparr>,
                isSourceOpConstructed = True, sourceOp = None\<rparr>]) \<noteq> Some Ill_formed \<and>
   signals_at 1
     (snd (set_done \<lparr>done_invocable = True, error_invocable = (\<lambda>e::int. False)\<rparr> \<lparr>op = Some 1\<rparr>
        [1 \<mapsto> \<lparr>source = \<lparr>connect_throws = None, on_start = [Set_done], later = []\<rparr>,
                receiver = \<lparr>value_throws = (None :: string option),
                  error_throws = (\<lambda>e. None), observed = []\<rparr>,
                isSourceOpConstructed = True, sourceOp = None\<rparr>])) \<noteq> [Set_done]"
proof -
  let ?R = "\<lparr>done_invocable = True, error_invocable = (\<lambda>e::int. False)\<rparr>"
  let ?o = "\<lparr>source = \<lparr>connect_throws = None, on_start = [Set_done :: int completion], later = []\<rparr>,
             receiver = \<lparr>value_throws = (None :: string option),
               error_throws = (\<lambda>e::int. None), observed = []\<rparr>,
             isSourceOpConstructed = True, sourceOp = None\<rparr>"
  from set_done_gate_and_action [of ?R "\<lparr>op = Some 1\<rparr>" "[1 \<mapsto> ?o]" 1 ?o]
  show ?thesis by simp
qed

text \<open>
  C7. Move construction gives the new inner receiver the back-reference and sets that of
  the moved-from one to null; a moved-from instance delivers nothing (its relay members
  stop at the assertion and leave the store as it is); and however the instances made by
  the explicit constructor for an operation state are relocated, exactly one of them
  holds the back-reference to it.
\<close>

theorem relocation_clears_back_reference:
  "op (fst (unstoppable_source_receiver_move r)) = op r \<and>
   op (snd (unstoppable_source_receiver_move r)) = None \<and>
   set_value (snd (unstoppable_source_receiver_move r)) h = (Some Assertion_failure, h) \<and>
   snd (deliver R (snd (unstoppable_source_receiver_move r)) c h) = h \<and>
   length (live_for p (fold relocate is [unstoppable_source_receiver_ctor p])) = 1"
proof -
  have "op (snd (unstoppable_source_receiver_move r)) = None"
    by (simp add: unstoppable_source_receiver_move_def)
  then show ?thesis
    using deliver_moved_from [of "snd (unstoppable_source_receiver_move r)" R c h]
    by (simp add: live_for_fold_relocate)
       (simp add: unstoppable_source_receiver_move_def set_value_def live_for_def
          unstoppable_source_receiver_ctor_def)
qed

text \<open>
  C8. Whatever the wrapped source declares, \<^verbatim>\<open>unstoppable_sender\<close> declares its success
  shape as the variant of one empty tuple and its error shapes as those of the source.
\<close>

theorem unstoppable_sender_completion_shapes:
  "value_types (unstoppable_sender_type Source) Variant Tuple = Variant [Tuple []] \<and>
   error_types (unstoppable_sender_type Source) Variant = error_types Source Variant"
  by (simp add: unstoppable_sender_type_def)

text \<open>
  C9. When the consumer's success channel throws \<open>x\<close>, the exception leaves the inner
  receiver's \<^verbatim>\<open>set_value\<close>, whereas \<^verbatim>\<open>set_done\<close> ends the program; no call of
  \<^verbatim>\<open>set_done\<close> or \<^verbatim>\<open>set_error\<close> exits by an exception.
\<close>

theorem relay_exception_behaviour:
  assumes "op r = Some p" and "h p = Some this" and "value_throws (receiver this) = Some x"
  shows "fst (set_value r h) = Some (Exception x) \<and>
         (done_invocable R \<longrightarrow> fst (set_done R r h) = Some Terminate) \<and>
         fst (set_done R' r' h') \<noteq> Some (Exception y) \<and>
         fst (set_error R' r' e h') \<noteq> Some (Exception y)"
proof -
  have a: "fst (set_value r h) = Some (Exception x)"
    using assms by (simp add: set_value_def unifex_set_value_def)
  have b: "done_invocable R \<longrightarrow> fst (set_done R r h) = Some Terminate"
    using assms by (simp add: set_done_def unifex_set_value_def noexcept_simps)
  have c: "fst (set_done R' r' h') \<noteq> Some (Exception y)"
    by (simp add: set_done_def noexcept_simps split: option.splits prod.splits)
  have d: "fst (set_error R' r' e h') \<noteq> Some (Exception y)"
    by (simp add: set_error_def noexcept_simps split: option.splits prod.splits)
  from a b c d show ?thesis by blast
qed

theorem relay_exception_behaviour_witness:
  "fst (set_value \<lparr>op = Some 2\<rparr>
        [2 \<mapsto> \<lparr>source = \<lparr>connect_throws = None, on_start = [Set_value :: int completion],
                  later = []\<rparr>,
                receiver = \<lparr>value_throws = Some ''thrown by the consumer'',
                  error_throws = (\<lambda>e. None), observed = []\<rparr>,
                isSourceOpConstructed = True, sourceOp = None\<rparr>])
     = Some (Exception ''thrown by the consumer'') \<and>
   fst (set_done \<lparr>done_invocable = True, error_invocable = (\<lambda>e::int. True)\<rparr> \<lparr>op = Some 2\<rparr>
        [2 \<mapsto> \<lparr>source = \<lparr>connect_throws = None, on_start = [Set_value], later = []\<rparr>,
                receiver = \<lparr>value_throws = Some ''thrown by the consumer'',
                  error_throws = (\<lambda>e. None), observed = []\<rparr>,
                isSourceOpConstructed = True, sourceOp = None\<rparr>])
     = Some Terminate"
proof -
  let ?R = "\<lparr>done_invocable = True, error_invocable = (\<lambda>e::int. True)\<rparr>"
  let ?o = "\<lparr>source = \<lparr>connect_throws = None, on_start = [Set_value :: int completion],
               later = []\<rparr>,
             receiver = \<lparr>value_throws = Some ''thrown by the consumer'',
               error_throws = (\<lambda>e::int. None), observed = []\<rparr>,
             isSourceOpConstructed = True, sourceOp = None\<rparr>"
  have h1: "op \<lparr>op = Some 2\<rparr> = Some 2" by simp
  have h2: "[2 \<mapsto> ?o] 2 = Some ?o" by simp
  have h3: "value_throws (receiver ?o) = Some ''thrown by the consumer''" by simp
  from relay_exception_behaviour
    [of "\<lparr>op = Some 2\<rparr>" 2 "[2 \<mapsto> ?o]" ?o "''thrown by the consumer''" ?R
      ?R "\<lparr>op = Some 2\<rparr>" "[2 \<mapsto> ?o]" "''thrown by the consumer''" 42, OF h1 h2 h3]
  show ?thesis by simp
qed

text \<open>
  C10, as stated, covers every customization-point object but the three completion
  signals. \<^verbatim>\<open>visit_continuations\<close> with a visiting function reaches the overload of
  lines 82-90 instead: the function is invoked on the consumer's receiver and nothing is
  returned, where forwarding the call would have visited that receiver's own
  continuations (none, below).
\<close>

theorem query_forwarding_counterexample:
  "tag_invoke (\<lambda>cpo args. True) (\<lambda>cpo rcv args v. ((), v)) (\<lambda>func rcv v. Suc v)
     (visit_continuations :: unit cpo) \<lparr>op = Some 0\<rparr> [()]
     [0 \<mapsto> \<lparr>source = \<lparr>connect_throws = (None :: string option), on_start = [], later = []\<rparr>,
             receiver = \<lparr>value_throws = None, error_throws = (\<lambda>e::int. None), observed = []\<rparr>,
             isSourceOpConstructed = True, sourceOp = None\<rparr>] (0::nat)
   = Inr (None, 1) \<and>
   forwarded_unchanged (\<lambda>cpo rcv args v. ((), v)) (visit_continuations :: unit cpo)
     \<lparr>value_throws = (None :: string option), error_throws = (\<lambda>e::int. None), observed = []\<rparr>
     [()] (0::nat)
   = (Inr (Some (), 0) :: string fault + (unit option \<times> nat))"
  by (simp add: tag_invoke_visit_continuations_def get_receiver_def forwarded_unchanged_def)

text \<open>
  C10, amended. With a non-null back-reference to a live operation state, a query that
  is invocable on the const consumer's receiver, other than \<^verbatim>\<open>visit_continuations\<close>
  with a single argument, is forwarded to that receiver with its arguments and its result
  is returned unchanged; \<^verbatim>\<open>visit_continuations\<close> with a visiting function invokes the
  function on the consumer's receiver and returns nothing.
\<close>

theorem query_forwarding:
  assumes "op r = Some p" and "h p = Some this"
  shows "(invocable cpo args \<and> (cpo = visit_continuations \<longrightarrow> length args \<noteq> 1) \<longrightarrow>
            tag_invoke invocable call invoke_func cpo r args h v =
              forwarded_unchanged call cpo (receiver this) args v) \<and>
         tag_invoke invocable call invoke_func visit_continuations r [func] h v =
           Inr (None, invoke_func func (receiver this) v)"
proof -
  have "tag_invoke invocable call invoke_func cpo r args h v =
          tag_invoke_cpo invocable call cpo r args h v"
    if "cpo = visit_continuations \<longrightarrow> length args \<noteq> 1"
    using that
    by (cases "(invocable, call, invoke_func, cpo, r, args, h, v)" rule: tag_invoke.cases) simp_all
  then show ?thesis
    using assms
    by (simp add: tag_invoke_cpo_def tag_invoke_visit_continuations_def get_receiver_def
        forwarded_unchanged_def)
qed

theorem query_forwarding_witness:
  "tag_invoke (\<lambda>cpo args. True) (\<lambda>cpo rcv args v. (length (observed rcv), v))
     (\<lambda>func rcv v. v) (Query ''get_stop_token'') \<lparr>op = Some 0\<rparr> ([] :: unit list)
     [0 \<mapsto> \<lparr>source = \<lparr>connect_throws = (None :: string option), on_start = [], later = []\<rparr>,
             receiver = \<lparr>value_throws = None, error_throws = (\<lambda>e::int. None),
               observed = [Set_value]\<rparr>,
             isSourceOpConstructed = True, sourceOp = None\<rparr>] ()
   = Inr (Some 1, ())"
proof -
  let ?o = "\<lparr>source = \<lparr>connect_throws = (None :: string option), on_start = [], later = []\<rparr>,
             receiver = \<lparr>value_throws = None, error_throws = (\<lambda>e::int. None),
               observed = [Set_value]\<rparr>,
             isSourceOpConstructed = True, sourceOp = None\<rparr>"
  have h1: "op \<lparr>op = Some 0\<rparr> = Some 0" by simp
  have h2: "[0 \<mapsto> ?o] 0 = Some ?o" by simp
  from query_forwarding [of "\<lparr>op = Some 0\<rparr>" 0 "[0 \<mapsto> ?o]" ?o "\<lambda>cpo args. True"
      "Query ''get_stop_token''" "[] :: unit list"
      "\<lambda>cpo rcv args v. (length (observed rcv), v)" "\<lambda>func rcv v. v" "()", OF h1 h2]
  show ?thesis by (simp add: forwarded_unchanged_def)
qed

end
